theory Spec2Isabelle
  imports Main
begin

section \<open>JavaScript values as the verifier sees them\<close>

text \<open>
  The library in \<^verbatim>\<open>src/src/type.test.mjs\<close> (class \<^verbatim>\<open>Type\<close>, from line 55 on) inspects
  values with \<^verbatim>\<open>Object.keys\<close>, \<^verbatim>\<open>Reflect.has\<close>, property reads, \<^verbatim>\<open>typeof\<close>,
  \<^verbatim>\<open>Array.isArray\<close> and \<^verbatim>\<open>Object.prototype.toString\<close>. A value is represented by
  what these operations observe.

  A primitive is \<open>undefined\<close>, \<open>null\<close>, a boolean, a number or a string. No modelled
  operation computes with a number, so numbers are held as integers (of a size that
  prints in plain decimal); symbols and bigints are left out.

  An object (plain object, class instance, array or function) is
  \<open>JObj kind tag own other\<close>:
  \<^item> \<open>kind\<close>: what the object is by construction: callable (\<^verbatim>\<open>typeof\<close> gives
    \<^verbatim>\<open>'function'\<close>), an array (\<^verbatim>\<open>Array.isArray\<close>), another built-in class with a class
    tag of its own (\<^verbatim>\<open>Error\<close>, \<^verbatim>\<open>Date\<close>, ...) or none of these;
  \<^item> \<open>tag\<close>: the string under \<^verbatim>\<open>Symbol.toStringTag\<close> that the object has or inherits,
    if there is one; \<^verbatim>\<open>Object.prototype.toString\<close> prints it, and the tag of the kind
    otherwise;
  \<^item> \<open>own\<close>: the own enumerable string-keyed properties, in the order of
    \<^verbatim>\<open>Object.keys\<close> (index keys first, then the other keys as they were added; a
    key looked up is found at its first place in the list);
  \<^item> \<open>other\<close>: every other property reachable by name, that is the non-enumerable own
    ones and the inherited ones, nearest first. An entry \<^verbatim>\<open>__proto__\<close> there stands for
    the accessor inherited from \<^verbatim>\<open>Object.prototype\<close>, and its value is the prototype
    of the object.

  The limits of this representation, which the statements below name where they
  matter:
  \<^item> values are finite trees. A format or a target that contains itself is no value
    here; on such a pair the code may recurse until the stack is exhausted. The stack
    has no bound here, so neither is nesting too deep for the stack represented;
  \<^item> an object has no identity. Whether two equal object values are one and the same
    object is asked of the runtime (below);
  \<^item> properties are writable data properties. User-defined getters and setters,
    frozen objects and proxies are left out; the one accessor that every object has,
    \<^verbatim>\<open>__proto__\<close>, is modelled.
\<close>

datatype objkind = Ordinary | ArrayObject | Callable | Builtin string

datatype jsval =
    JUndefined
  | JNull
  | JBool bool
  | JNum int
  | JStr string
  | JObj objkind "string option" "(string \<times> jsval) list" "(string \<times> jsval) list"

text \<open>What a call can throw, and the result of a call that may throw.\<close>

datatype error = TypeError | SyntaxError | OtherError

datatype 'a outcome = Threw error | Returned 'a

text \<open>
  The two \<^verbatim>\<open>console.warn\<close> messages of \<^verbatim>\<open>verify\<close>, by their parts:
  \<open>MissingRequired key\<close> is
  \<^verbatim>\<open>Format requires ${key}, it is not optional and object doesn't have it\<close> and
  \<open>TypeMismatch key f o\<close> is \<^verbatim>\<open>${key}(${fMeta.name}) !== ${key}(${oMeta.name})\<close>, with
  \<open>f\<close> and \<open>o\<close> the two names as the template literal spells them.
\<close>

datatype warning = MissingRequired string | TypeMismatch string string string

subsection \<open>What the code asks of the runtime\<close>

text \<open>
  Three things that the code does depend on what surrounds it and not on the values
  alone. They are parameters of the model:
  \<^item> \<open>rt_lookup s\<close>: what \<^verbatim>\<open>main?.[s] || eval(`(typeof ${s} !== 'undefined' && ${s})`)\<close>
    does for the name spelled \<open>s\<close>, in the scope in which \<^verbatim>\<open>Type.from\<close> runs:
    \<open>None\<close> when it completes, the error when it throws (the SyntaxError of a
    name that does not parse, or whatever the text of the name does when run);
  \<^item> \<open>rt_stringify v\<close>: what the conversion of the object \<open>v\<close> to a string does. It
    calls the object's \<^verbatim>\<open>toString\<close> or \<^verbatim>\<open>valueOf\<close>, which are code, and throws a
    TypeError when the object has neither;
  \<^item> \<open>rt_identical v\<close>: whether the two occurrences of the object value \<open>v\<close> that
    \<^verbatim>\<open>===\<close> compares are one and the same object.
\<close>

record runtime =
  rt_lookup :: "string \<Rightarrow> error option"
  rt_stringify :: "jsval \<Rightarrow> string outcome"
  rt_identical :: "jsval \<Rightarrow> bool"

subsection \<open>Primitive operations of the language\<close>

definition typeof :: "jsval \<Rightarrow> string" where
  "typeof v =
     (case v of
        JUndefined \<Rightarrow> ''undefined''
      | JNull \<Rightarrow> ''object''
      | JBool _ \<Rightarrow> ''boolean''
      | JNum _ \<Rightarrow> ''number''
      | JStr _ \<Rightarrow> ''string''
      | JObj k _ _ _ \<Rightarrow> (if k = Callable then ''function'' else ''object''))"

definition truthy :: "jsval \<Rightarrow> bool" where
  "truthy v =
     (case v of
        JUndefined \<Rightarrow> False
      | JNull \<Rightarrow> False
      | JBool b \<Rightarrow> b
      | JNum n \<Rightarrow> n \<noteq> 0
      | JStr s \<Rightarrow> s \<noteq> []
      | JObj _ _ _ _ \<Rightarrow> True)"

definition isArray :: "jsval \<Rightarrow> bool" where
  "isArray v = (case v of JObj k _ _ _ \<Rightarrow> k = ArrayObject | _ \<Rightarrow> False)"

definition is_object :: "jsval \<Rightarrow> bool" where
  "is_object v = (case v of JObj _ _ _ _ \<Rightarrow> True | _ \<Rightarrow> False)"

text \<open>
  \<^verbatim>\<open>a === b\<close>: primitives are equal when they are the same value; two objects are
  equal when they are one object, which takes equal values and the word of the runtime.
\<close>

definition strict_equal :: "runtime \<Rightarrow> jsval \<Rightarrow> jsval \<Rightarrow> bool" where
  "strict_equal rt a b =
     (case a of
        JObj _ _ _ _ \<Rightarrow> a = b \<and> rt_identical rt a
      | _ \<Rightarrow> a = b)"

text \<open>The decimal spelling of an array index, as a property key, and of an integer.\<close>

definition digit_char :: "nat \<Rightarrow> char" where
  "digit_char d = ''0123456789'' ! d"

fun index_key :: "nat \<Rightarrow> string" where
  "index_key n =
     (if n < 10 then [digit_char n] else index_key (n div 10) @ [digit_char (n mod 10)])"

declare index_key.simps [simp del]

definition decimal :: "int \<Rightarrow> string" where
  "decimal n = (if n < 0 then ''-'' @ index_key (nat (- n)) else index_key (nat n))"

definition own_props :: "jsval \<Rightarrow> (string \<times> jsval) list" where
  "own_props v =
     (case v of
        JObj _ _ own _ \<Rightarrow> own
      | JStr s \<Rightarrow> zip (map index_key [0..<length s]) (map (\<lambda>c. JStr [c]) s)
      | _ \<Rightarrow> [])"

definition other_props :: "jsval \<Rightarrow> (string \<times> jsval) list" where
  "other_props v =
     (case v of
        JObj _ _ _ other \<Rightarrow> other
      | JStr s \<Rightarrow> [(''length'', JNum (int (length s)))]
      | _ \<Rightarrow> [])"

text \<open>\<^verbatim>\<open>Object.keys(v)\<close>: a TypeError on \<open>undefined\<close> and \<open>null\<close>.\<close>

definition Object_keys :: "jsval \<Rightarrow> string list outcome" where
  "Object_keys v =
     (case v of
        JUndefined \<Rightarrow> Threw TypeError
      | JNull \<Rightarrow> Threw TypeError
      | _ \<Rightarrow> Returned (map fst (own_props v)))"

text \<open>\<^verbatim>\<open>Reflect.has(v, key)\<close>: a TypeError unless \<open>v\<close> is an object.\<close>

definition Reflect_has :: "jsval \<Rightarrow> string \<Rightarrow> bool outcome" where
  "Reflect_has v key =
     (case v of
        JObj _ _ own other \<Rightarrow> Returned (map_of (own @ other) key \<noteq> None)
      | _ \<Rightarrow> Threw TypeError)"

text \<open>
  \<^verbatim>\<open>v[key]\<close>: a TypeError on \<open>undefined\<close> and \<open>null\<close>, \<open>undefined\<close> for a missing key.
  The members that a primitive inherits from its wrapper prototype are not listed: from
  a primitive the code reads index keys and \<^verbatim>\<open>name\<close> only, and no wrapper prototype has
  a \<^verbatim>\<open>name\<close>.
\<close>

definition get_prop :: "jsval \<Rightarrow> string \<Rightarrow> jsval outcome" where
  "get_prop v key =
     (case v of
        JUndefined \<Rightarrow> Threw TypeError
      | JNull \<Rightarrow> Threw TypeError
      | _ \<Rightarrow>
         Returned (case map_of (own_props v @ other_props v) key of
                     Some x \<Rightarrow> x
                   | None \<Rightarrow> JUndefined))"

text \<open>
  The conversion to a string that a template literal and a computed property key make:
  fixed for a primitive, the runtime's for an object.
\<close>

definition ToString :: "runtime \<Rightarrow> jsval \<Rightarrow> string outcome" where
  "ToString rt v =
     (case v of
        JUndefined \<Rightarrow> Returned ''undefined''
      | JNull \<Rightarrow> Returned ''null''
      | JBool b \<Rightarrow> Returned (if b then ''true'' else ''false'')
      | JNum n \<Rightarrow> Returned (decimal n)
      | JStr s \<Rightarrow> Returned s
      | JObj _ _ _ _ \<Rightarrow> rt_stringify rt v)"

section \<open>Type introspection: \<^verbatim>\<open>Type.from\<close>\<close>

text \<open>
  \<^verbatim>\<open>Object.prototype.toString.call(v)\<close> is \<^verbatim>\<open>[object \<close> followed by the class tag and
  \<^verbatim>\<open>]\<close>.
\<close>

definition builtin_tag :: "objkind \<Rightarrow> string" where
  "builtin_tag k =
     (case k of
        Ordinary \<Rightarrow> ''Object''
      | ArrayObject \<Rightarrow> ''Array''
      | Callable \<Rightarrow> ''Function''
      | Builtin s \<Rightarrow> s)"

definition class_tag :: "jsval \<Rightarrow> string" where
  "class_tag v =
     (case v of
        JUndefined \<Rightarrow> ''Undefined''
      | JNull \<Rightarrow> ''Null''
      | JBool _ \<Rightarrow> ''Boolean''
      | JNum _ \<Rightarrow> ''Number''
      | JStr _ \<Rightarrow> ''String''
      | JObj k t _ _ \<Rightarrow> (case t of Some s \<Rightarrow> s | None \<Rightarrow> builtin_tag k))"

definition toString_call :: "jsval \<Rightarrow> string" where
  "toString_call v = ''[object '' @ class_tag v @ '']''"

text \<open>The regular expression class \<^verbatim>\<open>\w\<close>.\<close>

definition word_char :: "char \<Rightarrow> bool" where
  "word_char c =
     (c \<in> set ''abcdefghijklmnopqrstuvwxyzABCDEFGHIJKLMNOPQRSTUVWXYZ0123456789_'')"

text \<open>
  \<^verbatim>\<open>/t (\w+)]/.exec(s)\<close>, group 1: the leftmost place where \<^verbatim>\<open>t\<close>, a space, a
  non-empty run of word characters and \<^verbatim>\<open>]\<close> follow one another. \<^verbatim>\<open>]\<close> is no word
  character, so only the longest run at a place can be followed by it. \<open>None\<close> is the
  \<open>null\<close> of a failed match.
\<close>

fun regex_exec :: "string \<Rightarrow> string option" where
  "regex_exec [] = None"
| "regex_exec (c # cs) =
     (if c = CHR ''t'' \<and> take 1 cs = '' ''
         \<and> takeWhile word_char (drop 1 cs) \<noteq> []
         \<and> take 1 (dropWhile word_char (drop 1 cs)) = '']''
      then Some (takeWhile word_char (drop 1 cs))
      else regex_exec cs)"

text \<open>
  \<^verbatim>\<open>Type.from(object)\<close> (lines 214-228). Only the \<^verbatim>\<open>name\<close> of its result is
  represented: \<^verbatim>\<open>verify\<close> reads nothing else of it. With a match, \<^verbatim>\<open>out.name\<close> is the
  \<^verbatim>\<open>name\<close> property of the object when the tag is \<^verbatim>\<open>Function\<close> and the tag otherwise.
  Then \<^verbatim>\<open>main?.[out.name] || eval(...)\<close> turns the name into a property key and into
  program text, which is the string conversion of the name (a throw for an object
  without one), and looks that string up in the scope.
\<close>

definition Type_from :: "runtime \<Rightarrow> jsval \<Rightarrow> jsval outcome" where
  "Type_from rt object =
     (case regex_exec (toString_call object) of
        None \<Rightarrow> Returned JNull
      | Some n \<Rightarrow>
         (case (if n = ''Function'' then get_prop object ''name'' else Returned (JStr n)) of
            Threw e \<Rightarrow> Threw e
          | Returned out_name \<Rightarrow>
             (case ToString rt out_name of
                Threw e \<Rightarrow> Threw e
              | Returned s \<Rightarrow>
                 (case rt_lookup rt s of
                    Some e \<Rightarrow> Threw e
                  | None \<Rightarrow> Returned out_name))))"

section \<open>The structural verifier: \<^verbatim>\<open>verify\<close>\<close>

text \<open>
  The two local helpers of \<^verbatim>\<open>verify\<close> (lines 172-173);
  \<^verbatim>\<open>Type.Optional.name\<close> is \<^verbatim>\<open>'Optional'\<close>.
\<close>

definition isOpt :: "runtime \<Rightarrow> jsval \<Rightarrow> bool outcome" where
  "isOpt rt t =
     (case Type_from rt t of
        Threw e \<Rightarrow> Threw e
      | Returned n \<Rightarrow> Returned (strict_equal rt n (JStr ''Optional'')))"

definition optType :: "runtime \<Rightarrow> jsval \<Rightarrow> jsval outcome" where
  "optType rt t =
     (case isOpt rt t of
        Threw e \<Rightarrow> Threw e
      | Returned b \<Rightarrow> if b then get_prop t ''type'' else Returned t)"

text \<open>
  \<^verbatim>\<open>Array.prototype.every\<close> with a callback that returns a boolean, may warn and may
  throw: it stops with \<open>false\<close> at the first element whose callback returns \<open>false\<close>, and a
  throw ends it. The warnings are those printed up to there, in order.
\<close>

fun every :: "('a \<Rightarrow> bool outcome \<times> warning list) \<Rightarrow> 'a list \<Rightarrow> bool outcome \<times> warning list" where
  "every f [] = (Returned True, [])"
| "every f (x # xs) =
     (case f x of
        (Returned True, w) \<Rightarrow> (case every f xs of (r, w') \<Rightarrow> (r, w @ w'))
      | (r, w) \<Rightarrow> (r, w))"

lemma map_of_size:
  "map_of ps key = Some u \<Longrightarrow> size u < Suc (size_list (size_prod (\<lambda>_. 0) size) ps)"
  for ps :: "(string \<times> jsval) list"
proof -
  assume "map_of ps key = Some u"
  then have "(key, u) \<in> set ps" by (rule map_of_SomeD)
  then show ?thesis by (induction ps) auto
qed

lemma get_prop_size:
  assumes "get_prop v key = Returned (JObj k t own other)"
  shows "size (JObj k t own other) < size v"
proof (cases v)
  case (JObj k' t' own' other')
  with assms have "map_of (own' @ other') key = Some (JObj k t own other)"
    by (auto simp: get_prop_def own_props_def other_props_def split: option.splits)
  from map_of_size [OF this] JObj show ?thesis by simp
next
  case (JStr s)
  with assms have "map_of (zip (map index_key [0..<length s]) (map (\<lambda>c. JStr [c]) s)
      @ [(''length'', JNum (int (length s)))]) key = Some (JObj k t own other)"
    by (auto simp: get_prop_def own_props_def other_props_def split: option.splits)
  then have "(key, JObj k t own other) \<in> set (zip (map index_key [0..<length s]) (map (\<lambda>c. JStr [c]) s)
      @ [(''length'', JNum (int (length s)))])"
    by (rule map_of_SomeD)
  then show ?thesis by (auto dest: set_zip_rightD)
qed (use assms in \<open>auto simp: get_prop_def own_props_def other_props_def\<close>)

lemma optType_size:
  assumes "optType rt spec = Returned (JObj k t own other)"
  shows "size (JObj k t own other) \<le> size spec"
proof (cases "isOpt rt spec")
  case (Threw e)
  with assms show ?thesis by (simp add: optType_def)
next
  case (Returned b)
  show ?thesis
  proof (cases b)
    case True
    with Returned assms have "get_prop spec ''type'' = Returned (JObj k t own other)"
      by (simp add: optType_def)
    then show ?thesis using get_prop_size by fastforce
  next
    case False
    with Returned assms show ?thesis by (simp add: optType_def)
  qed
qed

lemma optType_object:
  assumes "optType rt spec = Returned (JObj k t own other)"
  shows "is_object spec"
proof (cases "isOpt rt spec")
  case (Threw e)
  with assms show ?thesis by (simp add: optType_def)
next
  case (Returned b)
  show ?thesis
  proof (cases b)
    case True
    with Returned assms have "get_prop spec ''type'' = Returned (JObj k t own other)"
      by (simp add: optType_def)
    then show ?thesis
      by (cases spec)
         (auto simp: get_prop_def own_props_def other_props_def is_object_def
               split: option.splits dest!: map_of_SomeD set_zip_rightD)
  next
    case False
    with Returned assms show ?thesis by (simp add: optType_def is_object_def)
  qed
qed

lemma typeof_object_truthy:
  assumes "typeof fType = ''object''" and "get_prop fType key = Returned x"
  shows "\<exists>k t own other. fType = JObj k t own other"
  using assms by (cases fType) (auto simp: typeof_def get_prop_def)

text \<open>
  \<^verbatim>\<open>verify(object, useFormat = null, allowDuckTyping = true)\<close> (lines 170-206), a method
  of a descriptor whose \<^verbatim>\<open>format\<close> field is \<open>this_format\<close>. \<open>chosen_format\<close> is
  \<^verbatim>\<open>useFormat || this.format\<close>. \<open>verify_key\<close> is the callback given to \<^verbatim>\<open>every\<close>; its
  steps are in the order in which the source evaluates them, so that the first throw of
  the model is the first throw of the code. The template literal of the second warning
  converts the two names to strings before \<^verbatim>\<open>console.warn\<close> is called, and a throw of
  that conversion leaves the callback.
\<close>

definition chosen_format :: "jsval \<Rightarrow> jsval \<Rightarrow> jsval" where
  "chosen_format this_format useFormat = (if truthy useFormat then useFormat else this_format)"

function verify :: "runtime \<Rightarrow> jsval \<Rightarrow> jsval \<Rightarrow> jsval \<Rightarrow> bool \<Rightarrow> bool outcome \<times> warning list"
  and verify_key :: "runtime \<Rightarrow> jsval \<Rightarrow> jsval \<Rightarrow> jsval \<Rightarrow> bool \<Rightarrow> string \<Rightarrow> bool outcome \<times> warning list"
where
  "verify rt this_format object useFormat allowDuckTyping =
     (case Object_keys (chosen_format this_format useFormat) of
        Threw e \<Rightarrow> (Threw e, [])
      | Returned keys \<Rightarrow>
         every (\<lambda>key. verify_key rt this_format object
                   (chosen_format this_format useFormat) allowDuckTyping key)
           keys)"
| "verify_key rt this_format object format allowDuckTyping key =
     (case get_prop format key of
        Threw e \<Rightarrow> (Threw e, [])
      | Returned spec \<Rightarrow>
     (case optType rt spec of
        Threw e \<Rightarrow> (Threw e, [])
      | Returned fType \<Rightarrow>
     (case get_prop fType ''name'' of
        Threw e \<Rightarrow> (Threw e, [])
      | Returned fName \<Rightarrow>
     (case isOpt rt spec of
        Threw e \<Rightarrow> (Threw e, [])
      | Returned optional \<Rightarrow>
     (case Reflect_has object key of
        Threw e \<Rightarrow> (Threw e, [])
      | Returned present \<Rightarrow>
         if optional \<and> \<not> present then (Returned True, [])
         else if \<not> present then (Returned False, [MissingRequired key])
         else
     (case get_prop object key of
        Threw e \<Rightarrow> (Threw e, [])
      | Returned v \<Rightarrow>
     (case Type_from rt v of
        Threw e \<Rightarrow> (Threw e, [])
      | Returned oName \<Rightarrow>
         if (strict_equal rt oName (JStr ''Object'') \<or> strict_equal rt oName (JStr ''Array''))
            \<and> typeof fType = ''object''
         then verify rt this_format v fType allowDuckTyping
         else if strict_equal rt fName oName then (Returned True, [])
         else
     (case ToString rt fName of
        Threw e \<Rightarrow> (Threw e, [])
      | Returned fText \<Rightarrow>
     (case ToString rt oName of
        Threw e \<Rightarrow> (Threw e, [])
      | Returned oText \<Rightarrow> (Returned False, [TypeMismatch key fText oText]))))))))))"
  by pat_completeness auto
termination
proof (relation "measure (\<lambda>x. case x of
    Inl (r, tf, obj, uf, d) \<Rightarrow> 2 * size (chosen_format tf uf) + 1
  | Inr (r, tf, obj, f, d, key) \<Rightarrow> 2 * size f)", goal_cases)
  case 1
  show ?case by simp
next
  case (2 rt this_format object useFormat allowDuckTyping keys key)
  show ?case by simp
next
  case (3 rt this_format object format allowDuckTyping key spec fType fName optional present v oName)
  from 3 have ty: "typeof fType = ''object''" by simp
  from typeof_object_truthy [OF ty \<open>get_prop fType ''name'' = Returned fName\<close>]
  obtain k t own other where f: "fType = JObj k t own other" by blast
  have "size fType \<le> size spec"
    using optType_size \<open>optType rt spec = Returned fType\<close> f by simp
  moreover have "size spec < size format"
  proof -
    have "is_object spec" using optType_object \<open>optType rt spec = Returned fType\<close> f by simp
    then obtain k' t' own' other' where "spec = JObj k' t' own' other'"
      by (cases spec) (auto simp: is_object_def)
    then show ?thesis using get_prop_size \<open>get_prop format key = Returned spec\<close> by blast
  qed
  ultimately show ?case using f by (simp add: truthy_def chosen_format_def)
qed

declare verify.simps [simp del] verify_key.simps [simp del]

subsection \<open>Well-formed inputs\<close>



text \<open>
  A format whose every field is required: the specifier is there and \<^verbatim>\<open>isOpt\<close> says
  it is no \<^verbatim>\<open>Optional\<close> marker.
\<close>

definition required_field :: "runtime \<Rightarrow> jsval \<Rightarrow> string \<Rightarrow> bool" where
  "required_field rt format key =
     (case get_prop format key of
        Threw e \<Rightarrow> False
      | Returned spec \<Rightarrow>
         spec \<noteq> JUndefined \<and> spec \<noteq> JNull \<and> isOpt rt spec = Returned False)"

definition no_optional_fields :: "runtime \<Rightarrow> jsval \<Rightarrow> bool" where
  "no_optional_fields rt format =
     (case Object_keys format of
        Threw e \<Rightarrow> False
      | Returned keys \<Rightarrow> list_all (required_field rt format) keys)"



section \<open>Built-in objects\<close>

text \<open>
  The objects that every value of the examples and every synthesized instance inherits
  from. A tree cannot hold the circles of the built-in objects (a method is a function,
  which inherits the methods of functions), so the members of the built-in prototypes
  are leaves: functions known by their \<^verbatim>\<open>name\<close> only. Of a function, its \<^verbatim>\<open>prototype\<close>
  property is left out for the same reason.
\<close>

definition leaf_function :: "string \<Rightarrow> jsval" where
  "leaf_function n = JObj Callable None [] [(''name'', JStr n)]"

definition Object_members :: "(string \<times> jsval) list" where
  "Object_members =
     (''constructor'', leaf_function ''Object'') #
     map (\<lambda>n. (n, leaf_function n))
       [''__defineGetter__'', ''__defineSetter__'', ''hasOwnProperty'', ''__lookupGetter__'',
        ''__lookupSetter__'', ''isPrototypeOf'', ''propertyIsEnumerable'', ''toString'',
        ''valueOf'', ''toLocaleString'']"

text \<open>\<^verbatim>\<open>Object.prototype\<close>: its own prototype is \<open>null\<close>.\<close>

definition Object_prototype :: jsval where
  "Object_prototype = JObj Ordinary None [] (Object_members @ [(''__proto__'', JNull)])"

text \<open>
  What an object whose prototype is \<open>p\<close> reaches through it: the properties of \<open>p\<close> and
  what \<open>p\<close> reaches, with the accessor \<^verbatim>\<open>__proto__\<close> now answering \<open>p\<close>.
\<close>

definition inherited :: "jsval \<Rightarrow> (string \<times> jsval) list" where
  "inherited p =
     (case p of
        JObj k t own other \<Rightarrow>
          own @ map (\<lambda>q. if fst q = ''__proto__'' then (''__proto__'', p) else q) other
      | _ \<Rightarrow> [])"

definition Array_members :: "(string \<times> jsval) list" where
  "Array_members =
     (''constructor'', leaf_function ''Array'') #
     map (\<lambda>n. (n, leaf_function n))
       [''at'', ''concat'', ''copyWithin'', ''fill'', ''find'', ''findIndex'', ''findLast'',
        ''findLastIndex'', ''lastIndexOf'', ''pop'', ''push'', ''reverse'', ''shift'',
        ''unshift'', ''slice'', ''sort'', ''splice'', ''includes'', ''indexOf'', ''join'',
        ''keys'', ''entries'', ''values'', ''forEach'', ''filter'', ''flat'', ''flatMap'',
        ''map'', ''every'', ''some'', ''reduce'', ''reduceRight'', ''toReversed'',
        ''toSorted'', ''toSpliced'', ''with'', ''toLocaleString'', ''toString'']"

definition Array_prototype :: jsval where
  "Array_prototype =
     JObj ArrayObject None [] ((''length'', JNum 0) # Array_members @ inherited Object_prototype)"

definition Function_members :: "(string \<times> jsval) list" where
  "Function_members =
     (''constructor'', leaf_function ''Function'') #
     map (\<lambda>n. (n, leaf_function n)) [''apply'', ''bind'', ''call'', ''toString'']"

definition Function_prototype :: jsval where
  "Function_prototype =
     JObj Callable None []
       ((''length'', JNum 0) # (''name'', JStr []) # Function_members @ inherited Object_prototype)"

text \<open>
  An object literal \<^verbatim>\<open>{k1: v1, ...}\<close>, an array literal \<^verbatim>\<open>[v0, v1, ...]\<close>, and a function
  or class with its \<^verbatim>\<open>name\<close> and its \<^verbatim>\<open>length\<close>.
\<close>

definition js_object :: "(string \<times> jsval) list \<Rightarrow> jsval" where
  "js_object own = JObj Ordinary None own (inherited Object_prototype)"

definition js_array :: "jsval list \<Rightarrow> jsval" where
  "js_array xs =
     JObj ArrayObject None (zip (map index_key [0..<length xs]) xs)
       ((''length'', JNum (int (length xs))) # inherited Array_prototype)"

definition js_function :: "string \<Rightarrow> int \<Rightarrow> jsval" where
  "js_function n arity =
     JObj Callable None []
       ((''length'', JNum arity) # (''name'', JStr n) # inherited Function_prototype)"

section \<open>Synthesized constructors: \<^verbatim>\<open>Type.classFromFormat\<close>\<close>

text \<open>
  The prototype of the class that \<^verbatim>\<open>classFromFormat(typeName, format)\<close> returns, by its
  string-keyed members: \<^verbatim>\<open>constructor\<close> is the class, and \<^verbatim>\<open>Symbol.toStringTag\<close> is
  \<open>typeName\<close> (line 124). The constructor takes rest arguments, so the \<^verbatim>\<open>length\<close> of the
  class is 0.
\<close>

definition class_prototype :: "string \<Rightarrow> jsval" where
  "class_prototype typeName =
     JObj Ordinary (Some typeName) []
       ((''constructor'', js_function typeName 0) # inherited Object_prototype)"

text \<open>
  The own-property write of \<^verbatim>\<open>o[key] = v\<close>: an existing key keeps its place, a new key
  goes last.
\<close>

fun put_prop :: "string \<Rightarrow> 'v \<Rightarrow> (string \<times> 'v) list \<Rightarrow> (string \<times> 'v) list" where
  "put_prop key v [] = [(key, v)]"
| "put_prop key v ((k, x) # ps) = (if k = key then (k, v) # ps else (k, x) # put_prop key v ps)"

text \<open>
  The assignment \<^verbatim>\<open>o[key] = v\<close> on an object. It writes an own property, except where it
  reaches the inherited setter of \<^verbatim>\<open>__proto__\<close>: that setter makes an object or \<open>null\<close>
  the new prototype, so that what the object inherits (its tag too) changes, and it
  drops any other value.
\<close>

definition assign :: "jsval \<Rightarrow> string \<Rightarrow> jsval \<Rightarrow> jsval" where
  "assign receiver key v =
     (case receiver of
        JObj k t own other \<Rightarrow>
          if key = ''__proto__'' \<and> map_of own key = None \<and> map_of other key \<noteq> None
          then (case v of
                  JNull \<Rightarrow> JObj k None own []
                | JObj _ t' _ _ \<Rightarrow> JObj k t' own (inherited v)
                | _ \<Rightarrow> receiver)
          else JObj k t (put_prop key v own) other
      | _ \<Rightarrow> receiver)"

text \<open>\<^verbatim>\<open>keys.map((key, index) => [key, values[index]])\<close>, from position \<open>index\<close> on.\<close>

fun positional :: "string list \<Rightarrow> jsval \<Rightarrow> nat \<Rightarrow> (string \<times> jsval) list outcome" where
  "positional [] values index = Returned []"
| "positional (key # keys) values index =
     (case get_prop values (index_key index) of
        Threw e \<Rightarrow> Threw e
      | Returned v \<Rightarrow>
         (case positional keys values (Suc index) of
            Threw e \<Rightarrow> Threw e
          | Returned entries \<Rightarrow> Returned ((key, v) # entries)))"

text \<open>\<^verbatim>\<open>Object.fromEntries\<close> defines own properties, whatever the key.\<close>

definition fromEntries :: "(string \<times> jsval) list \<Rightarrow> jsval" where
  "fromEntries entries = js_object (fold (\<lambda>(k, v). put_prop k v) entries [])"

text \<open>
  \<^verbatim>\<open>keys.reduce((kvp, key) => { kvp[key] = values[key]; return kvp }, this)\<close>.
\<close>

fun assign_keys :: "string list \<Rightarrow> jsval \<Rightarrow> jsval \<Rightarrow> jsval outcome" where
  "assign_keys [] values receiver = Returned receiver"
| "assign_keys (key # keys) values receiver =
     (case get_prop values key of
        Threw e \<Rightarrow> Threw e
      | Returned v \<Rightarrow> assign_keys keys values (assign receiver key v))"

text \<open>
  The constructor of the class that \<^verbatim>\<open>classFromFormat(typeName, format)\<close> returns
  (lines 103-119), called with \<^verbatim>\<open>new\<close> on the argument list \<open>args\<close>, with the default
  \<^verbatim>\<open>body\<close> and \<^verbatim>\<open>baseClass\<close> that \<^verbatim>\<open>new Type(typeName, format)\<close> uses. \<^verbatim>\<open>super()\<close>
  makes the new instance: no own property yet, the class prototype as its prototype.
\<close>

definition synthesized_new :: "string \<Rightarrow> jsval \<Rightarrow> jsval list \<Rightarrow> jsval outcome" where
  "synthesized_new typeName format args =
     (case Object_keys format of
        Threw e \<Rightarrow> Threw e
      | Returned keys \<Rightarrow>
     (case (let values = (if typeof (case args of [] \<Rightarrow> JUndefined | a # _ \<Rightarrow> a) = ''object''
                          then (case args of [] \<Rightarrow> JUndefined | a # _ \<Rightarrow> a)
                          else js_array args)
            in if isArray values
               then (case positional keys values 0 of
                       Threw e \<Rightarrow> Threw e
                     | Returned entries \<Rightarrow> Returned (fromEntries entries))
               else Returned values) of
        Threw e \<Rightarrow> Threw e
      | Returned values \<Rightarrow>
         assign_keys keys values
           (JObj Ordinary (Some typeName) [] (inherited (class_prototype typeName)))))"

section \<open>The format markers\<close>

text \<open>
  \<^verbatim>\<open>new Type.Optional(type)\<close> (lines 255-263): an object whose own property
  \<^verbatim>\<open>type\<close> is the wrapped specifier and whose class tag is the name of its class.
\<close>

definition Optional_prototype :: jsval where
  "Optional_prototype =
     JObj Ordinary (Some ''Optional'') []
       ((''constructor'', js_function ''Optional'' 1) # inherited Object_prototype)"

definition Optional :: "jsval \<Rightarrow> jsval" where
  "Optional t = JObj Ordinary (Some ''Optional'') [(''type'', t)] (inherited Optional_prototype)"

text \<open>
  \<^verbatim>\<open>new Type.ArrayOf(inner)\<close> (lines 243-249): \<^verbatim>\<open>Type.ArrayOf\<close> is the synthesized class
  of \<^verbatim>\<open>new Type('ArrayOf', { type: Function })\<close>, so the marker is an instance made by the
  synthesized constructor.
\<close>

definition ArrayOf :: "jsval \<Rightarrow> jsval outcome" where
  "ArrayOf inner =
     synthesized_new ''ArrayOf'' (js_object [(''type'', js_function ''Function'' 1)]) [inner]"

section \<open>A runtime for worked examples\<close>

text \<open>
  The runtime in which the worked examples run. Type names there are identifiers,
  \<^verbatim>\<open>undefined\<close> or \<^verbatim>\<open>null\<close>, no object is converted to a string and no two objects are
  compared, so that the examples use the following only where it is exact:
  \<^item> the lookup of a name completes when the name is an identifier that can stand as
    an expression in strict code, or a decimal numeral, and is a SyntaxError otherwise
    (right for the empty name of an anonymous function and for any name that does not
    parse; a name that is other program text would be run);
  \<^item> the conversion of an object to a string is a TypeError when the object reaches no
    callable \<^verbatim>\<open>toString\<close> or \<^verbatim>\<open>valueOf\<close>, and otherwise what \<^verbatim>\<open>Object.prototype.toString\<close>
    answers (arrays and functions answer otherwise);
  \<^item> no two object values are one object.
\<close>

definition reserved_words :: "string list" where
  "reserved_words =
     [''break'', ''case'', ''catch'', ''class'', ''const'', ''continue'', ''debugger'',
      ''default'', ''delete'', ''do'', ''else'', ''enum'', ''export'', ''extends'',
      ''finally'', ''for'', ''function'', ''if'', ''import'', ''in'', ''instanceof'',
      ''new'', ''return'', ''super'', ''switch'', ''throw'', ''try'', ''typeof'', ''var'',
      ''void'', ''while'', ''with'', ''yield'', ''let'', ''static'', ''implements'',
      ''interface'', ''package'', ''private'', ''protected'', ''public'']"

definition is_identifier :: "string \<Rightarrow> bool" where
  "is_identifier s =
     (case s of
        [] \<Rightarrow> False
      | c # cs \<Rightarrow>
         (c \<in> set ''abcdefghijklmnopqrstuvwxyzABCDEFGHIJKLMNOPQRSTUVWXYZ_$'')
         \<and> list_all (\<lambda>x. word_char x \<or> x = CHR ''$'') cs
         \<and> \<not> List.member reserved_words s)"

definition is_decimal :: "string \<Rightarrow> bool" where
  "is_decimal s =
     (case s of
        [] \<Rightarrow> False
      | c # cs \<Rightarrow> list_all (\<lambda>x. x \<in> set ''0123456789'') s \<and> (cs = [] \<or> c \<noteq> CHR ''0''))"

definition example_lookup :: "string \<Rightarrow> error option" where
  "example_lookup s = (if is_identifier s \<or> is_decimal s then None else Some SyntaxError)"

definition callable_member :: "jsval \<Rightarrow> string \<Rightarrow> bool" where
  "callable_member v key =
     (case get_prop v key of
        Returned (JObj k _ _ _) \<Rightarrow> k = Callable
      | _ \<Rightarrow> False)"

definition example_stringify :: "jsval \<Rightarrow> string outcome" where
  "example_stringify v =
     (if callable_member v ''toString'' \<or> callable_member v ''valueOf''
      then Returned (toString_call v)
      else Threw TypeError)"

definition example_runtime :: runtime where
  "example_runtime =
     \<lparr>rt_lookup = example_lookup, rt_stringify = example_stringify, rt_identical = (\<lambda>v. False)\<rparr>"

text \<open>The built-in classes that the formats of the examples name.\<close>

definition String_class :: jsval where
  "String_class = js_function ''String'' 1"

definition Number_class :: jsval where
  "Number_class = js_function ''Number'' 1"

section \<open>Descriptors and the caller's format object: \<^verbatim>\<open>new Type\<close>\<close>

text \<open>
  Whether a descriptor sees a later change of the caller's format depends on which
  object it holds, so here objects live in a store and are named by references. A store
  maps a reference to the own enumerable properties of the object; references below
  \<open>next_ref\<close> are the objects that exist. Property values are of any type \<open>'v\<close>: a
  nested object is a reference there, and copying a property list copies the reference.
\<close>

type_synonym ref = nat

record 'v store =
  objects :: "ref \<Rightarrow> (string \<times> 'v) list"
  next_ref :: ref

definition allocate :: "'v store \<Rightarrow> (string \<times> 'v) list \<Rightarrow> 'v store \<times> ref" where
  "allocate h props =
     (h\<lparr>objects := (objects h)(next_ref h := props), next_ref := Suc (next_ref h)\<rparr>, next_ref h)"

text \<open>
  The class returned by \<^verbatim>\<open>classFromFormat(typeName, format)\<close> (lines 101-134), by what
  it holds of the format: \<^verbatim>\<open>Object.keys(format)\<close> under \<^verbatim>\<open>PARAMS\<close>, the fresh object
  \<^verbatim>\<open>{...format}\<close> under \<^verbatim>\<open>FORMAT\<close> (both on its prototype), and the \<^verbatim>\<open>format\<close> that its
  constructor closes over.
\<close>

record synthesized_class =
  class_name :: string
  class_PARAMS :: "string list"
  class_FORMAT :: ref
  class_closure :: ref

definition classFromFormat :: "'v store \<Rightarrow> string \<Rightarrow> ref \<Rightarrow> 'v store \<times> synthesized_class" where
  "classFromFormat h typeName format =
     (case allocate h (objects h format) of
        (h', copy) \<Rightarrow>
          (h', \<lparr>class_name = typeName,
                class_PARAMS = map fst (objects h format),
                class_FORMAT = copy,
                class_closure = format\<rparr>))"

text \<open>
  \<^verbatim>\<open>new Type(typeName, format)\<close> (lines 78-82) with no constructor supplied:
  \<^verbatim>\<open>this.typeName = typeName\<close>, \<^verbatim>\<open>this.format = format\<close>,
  \<^verbatim>\<open>this.type = Type.classFromFormat(typeName, format)\<close>.
\<close>

record descriptor =
  descriptor_typeName :: string
  descriptor_format :: ref
  descriptor_type :: synthesized_class

definition new_Type :: "'v store \<Rightarrow> string \<Rightarrow> ref \<Rightarrow> 'v store \<times> descriptor" where
  "new_Type h typeName format =
     (case classFromFormat h typeName format of
        (h', cls) \<Rightarrow>
          (h', \<lparr>descriptor_typeName = typeName,
                descriptor_format = format,
                descriptor_type = cls\<rparr>))"

text \<open>What the caller can do to its format object afterwards: \<^verbatim>\<open>o[key] = v\<close> adds or
  retypes a key, \<^verbatim>\<open>delete o[key]\<close> removes one.\<close>

definition assign_prop :: "'v store \<Rightarrow> ref \<Rightarrow> string \<Rightarrow> 'v \<Rightarrow> 'v store" where
  "assign_prop h r key v = h\<lparr>objects := (objects h)(r := put_prop key v (objects h r))\<rparr>"

definition delete_prop :: "'v store \<Rightarrow> ref \<Rightarrow> string \<Rightarrow> 'v store" where
  "delete_prop h r key = h\<lparr>objects := (objects h)(r := filter (\<lambda>p. fst p \<noteq> key) (objects h r))\<rparr>"

text \<open>
  A store for a worked example: the caller's format \<^verbatim>\<open>{name: String}\<close> is the object at
  reference 0.
\<close>

definition caller_store :: "jsval store" where
  "caller_store = \<lparr>objects = (\<lambda>r. [])(0 := [(''name'', String_class)]), next_ref = 1\<rparr>"

section \<open>Notions used in the proofs\<close>

text \<open>
  The end of the callback, from the read of \<^verbatim>\<open>object[key]\<close> on (lines 191-204), as a
  function of the unwrapped specifier, its \<^verbatim>\<open>name\<close> and the value.
\<close>

definition check_present ::
  "runtime \<Rightarrow> jsval \<Rightarrow> bool \<Rightarrow> string \<Rightarrow> jsval \<Rightarrow> jsval \<Rightarrow> jsval \<Rightarrow> bool outcome \<times> warning list" where
  "check_present rt this_format allowDuckTyping key fType fName v =
     (case Type_from rt v of
        Threw e \<Rightarrow> (Threw e, [])
      | Returned oName \<Rightarrow>
         if (strict_equal rt oName (JStr ''Object'') \<or> strict_equal rt oName (JStr ''Array''))
            \<and> typeof fType = ''object''
         then verify rt this_format v fType allowDuckTyping
         else if strict_equal rt fName oName then (Returned True, [])
         else
     (case ToString rt fName of
        Threw e \<Rightarrow> (Threw e, [])
      | Returned fText \<Rightarrow>
     (case ToString rt oName of
        Threw e \<Rightarrow> (Threw e, [])
      | Returned oText \<Rightarrow> (Returned False, [TypeMismatch key fText oText]))))"


section \<open>Properties of the verifier\<close>

subsection \<open>Auxiliary facts\<close>

lemma every_cong_set:
  "(\<And>x. x \<in> set xs \<Longrightarrow> f x = g x) \<Longrightarrow> every f xs = every g xs"
  by (induction xs) (auto split: prod.splits outcome.splits bool.splits)

lemma every_True_iff:
  "fst (every f xs) = Returned True \<longleftrightarrow> (\<forall>x \<in> set xs. fst (f x) = Returned True)"
  by (induction xs) (auto split: prod.splits outcome.splits bool.splits)

lemma every_False_warns:
  assumes "every f xs = (Returned False, w)"
    and "\<And>x w'. x \<in> set xs \<Longrightarrow> f x = (Returned False, w') \<Longrightarrow> w' \<noteq> []"
  shows "w \<noteq> []"
  using assms
proof (induction xs arbitrary: w)
  case Nil
  then show ?case by simp
next
  case (Cons x xs)
  obtain r w1 where fx: "f x = (r, w1)" by (cases "f x")
  show ?case
  proof (cases "r = Returned True")
    case True
    obtain r2 w2 where rest: "every f xs = (r2, w2)" by (cases "every f xs")
    from Cons.prems(1) fx True rest have "r2 = Returned False" and w: "w = w1 @ w2" by auto
    with rest Cons.IH [of w2] Cons.prems(2) have "w2 \<noteq> []" by auto
    with w show ?thesis by simp
  next
    case False
    with Cons.prems(1) fx have "r = Returned False" and "w = w1"
      by (auto split: outcome.splits bool.splits)
    with fx Cons.prems(2) [of x w1] show ?thesis by simp
  qed
qed


lemma every_first_failure:
  "\<forall>x \<in> set pre. fst (f x) = Returned True \<Longrightarrow> f k = (Returned False, w)
     \<Longrightarrow> \<exists>ws. every f (pre @ k # post) = (Returned False, ws @ w)"
proof (induction pre)
  case Nil
  then show ?case by simp
next
  case (Cons x pre)
  then obtain ws where ws: "every f (pre @ k # post) = (Returned False, ws @ w)" by auto
  from Cons.prems(1) obtain w1 where "f x = (Returned True, w1)" by (cases "f x") auto
  with ws have "every f ((x # pre) @ k # post) = (Returned False, (w1 @ ws) @ w)" by simp
  then show ?case by blast
qed


lemma strict_equal_JStr [simp]: "strict_equal rt n (JStr s) \<longleftrightarrow> n = JStr s"
  by (cases n) (auto simp: strict_equal_def)

lemma verify_key_steps:
  assumes "get_prop format key = Returned spec"
    and "optType rt spec = Returned fType"
    and "get_prop fType ''name'' = Returned fName"
    and "isOpt rt spec = Returned optional"
    and "Reflect_has object key = Returned present"
  shows "verify_key rt this_format object format allowDuckTyping key =
     (if optional \<and> \<not> present then (Returned True, [])
      else if \<not> present then (Returned False, [MissingRequired key])
      else case get_prop object key of
             Threw e \<Rightarrow> (Threw e, [])
           | Returned v \<Rightarrow> check_present rt this_format allowDuckTyping key fType fName v)"
  using assms by (simp add: verify_key.simps check_present_def split: outcome.splits)


lemma verify_agree:
  assumes "Object_keys (chosen_format this_format useFormat) = Returned keys"
    and "\<And>key. key \<in> set keys \<Longrightarrow> Reflect_has a key = Reflect_has b key"
    and "\<And>key. key \<in> set keys \<Longrightarrow> get_prop a key = get_prop b key"
  shows "verify rt this_format a useFormat d = verify rt this_format b useFormat d"
proof -
  have "verify_key rt this_format a (chosen_format this_format useFormat) d key
      = verify_key rt this_format b (chosen_format this_format useFormat) d key"
    if "key \<in> set keys" for key
    unfolding verify_key.simps assms(2) [OF that] assms(3) [OF that] by (rule refl)
  then have "every (\<lambda>key. verify_key rt this_format a (chosen_format this_format useFormat) d key) keys
      = every (\<lambda>key. verify_key rt this_format b (chosen_format this_format useFormat) d key) keys"
    by (rule every_cong_set)
  with assms(1) show ?thesis by (simp add: verify.simps)
qed

lemma duck_typing_inert:
  "verify rt tf obj uf d = verify rt tf obj uf d'"
  "verify_key rt tf obj f d key = verify_key rt tf obj f d' key"
proof (induction rt tf obj uf d and rt tf obj f d key arbitrary: d' and d' rule: verify_verify_key.induct)
  case (1 rt this_format object useFormat allowDuckTyping)
  show ?case
  proof (cases "Object_keys (chosen_format this_format useFormat)")
    case (Threw e)
    then show ?thesis by (simp add: verify.simps)
  next
    case (Returned keys)
    from 1 [OF Returned] have
      "every (\<lambda>key. verify_key rt this_format object (chosen_format this_format useFormat) allowDuckTyping key) keys
       = every (\<lambda>key. verify_key rt this_format object (chosen_format this_format useFormat) d' key) keys"
      by (intro every_cong_set) simp
    with Returned show ?thesis by (simp add: verify.simps)
  qed
next
  case (2 rt this_format object format allowDuckTyping key)
  show ?case
    apply (subst verify_key.simps)
    apply (subst verify_key.simps)
    apply (intro outcome.case_cong if_cong refl)
    apply (rule 2; assumption)
    done
qed

lemma false_warns:
  "verify rt tf obj uf d = (Returned False, w) \<Longrightarrow> w \<noteq> []"
  "verify_key rt tf obj f d key = (Returned False, w) \<Longrightarrow> w \<noteq> []"
proof (induction rt tf obj uf d and rt tf obj f d key arbitrary: w and w rule: verify_verify_key.induct)
  case (1 rt this_format object useFormat allowDuckTyping)
  from "1.prems" obtain keys where k: "Object_keys (chosen_format this_format useFormat) = Returned keys"
    by (cases "Object_keys (chosen_format this_format useFormat)") (auto simp: verify.simps)
  with "1.prems" have "every (\<lambda>key. verify_key rt this_format object (chosen_format this_format useFormat) allowDuckTyping key) keys = (Returned False, w)"
    by (simp add: verify.simps)
  then show ?case by (rule every_False_warns) (rule "1.IH" [OF k])
next
  case (2 rt this_format object format allowDuckTyping key)
  from "2.prems" show ?case
    apply (subst (asm) verify_key.simps)
    apply (auto split: outcome.splits if_splits dest: "2.IH")
    done
qed




lemma get_prop_object: "is_object v \<Longrightarrow> \<exists>x. get_prop v key = Returned x"
  by (cases v) (auto simp: is_object_def get_prop_def)

lemma get_prop_defined:
  "v \<noteq> JUndefined \<Longrightarrow> v \<noteq> JNull \<Longrightarrow> \<exists>x. get_prop v key = Returned x"
  by (cases v) (auto simp: get_prop_def)









lemma required_key_missing:
  assumes "required_field rt format key"
    and "Reflect_has object key = Returned False"
  shows "verify_key rt this_format object format allowDuckTyping key
         = (Returned False, [MissingRequired key])"
proof -
  from assms(1) obtain spec where spec: "get_prop format key = Returned spec"
    and nn: "spec \<noteq> JUndefined" "spec \<noteq> JNull"
    and opt: "isOpt rt spec = Returned False"
    by (auto simp: required_field_def split: outcome.splits)
  from nn obtain fName where fName: "get_prop spec ''name'' = Returned fName"
    using get_prop_defined by blast
  from opt have "optType rt spec = Returned spec" by (simp add: optType_def)
  from verify_key_steps [OF spec this fName opt assms(2)] show ?thesis by simp
qed










lemma put_prop_map_of: "map_of (put_prop k v ps) = (map_of ps)(k \<mapsto> v)"
  by (induction ps) (auto simp: fun_eq_iff)

lemma assign_keys_object:
  assumes "is_object values" and "''__proto__'' \<notin> set keys"
  shows "\<exists>own'. assign_keys keys values (JObj k t own other) = Returned (JObj k t own' other)
           \<and> (\<forall>key. if key \<in> set keys
                     then get_prop values key = Returned (the (map_of own' key)) \<and> map_of own' key \<noteq> None
                     else map_of own' key = map_of own key)"
  using assms(2)
proof (induction keys arbitrary: own)
  case Nil
  then show ?case by simp
next
  case (Cons key keys)
  from Cons.prems have np: "key \<noteq> ''__proto__''" and rest: "''__proto__'' \<notin> set keys" by auto
  from get_prop_object [OF assms(1)] obtain v where v: "get_prop values key = Returned v" by blast
  from np have a1: "assign (JObj k t own other) key v = JObj k t (put_prop key v own) other"
    by (simp add: assign_def)
  from Cons.IH [OF rest, of "put_prop key v own"] obtain own' where
    a: "assign_keys keys values (JObj k t (put_prop key v own) other) = Returned (JObj k t own' other)"
    and b: "\<forall>x. if x \<in> set keys
                then get_prop values x = Returned (the (map_of own' x)) \<and> map_of own' x \<noteq> None
                else map_of own' x = map_of (put_prop key v own) x"
    by blast
  have "\<forall>x. if x \<in> set (key # keys)
             then get_prop values x = Returned (the (map_of own' x)) \<and> map_of own' x \<noteq> None
             else map_of own' x = map_of own x"
  proof
    fix x
    show "if x \<in> set (key # keys)
          then get_prop values x = Returned (the (map_of own' x)) \<and> map_of own' x \<noteq> None
          else map_of own' x = map_of own x"
      using b [rule_format, of x] v by (auto simp: put_prop_map_of split: if_splits)
  qed
  with a a1 v show ?case by simp
qed

lemma synthesized_new_object:
  assumes "typeof obj = ''object''" and "obj \<noteq> JNull" and "\<not> isArray obj"
    and "Object_keys F = Returned keys" and "''__proto__'' \<notin> set keys"
  shows "\<exists>own'. synthesized_new typeName F [obj]
            = Returned (JObj Ordinary (Some typeName) own' (inherited (class_prototype typeName)))
          \<and> (\<forall>k \<in> set keys. get_prop obj k = Returned (the (map_of own' k)) \<and> map_of own' k \<noteq> None)"
proof -
  from assms(1,2) have "is_object obj" by (cases obj) (auto simp: typeof_def is_object_def)
  from assign_keys_object [OF this assms(5), of Ordinary "Some typeName" "[]" "inherited (class_prototype typeName)"]
  obtain own' where
    a: "assign_keys keys obj (JObj Ordinary (Some typeName) [] (inherited (class_prototype typeName)))
          = Returned (JObj Ordinary (Some typeName) own' (inherited (class_prototype typeName)))"
    and b: "\<forall>k \<in> set keys. get_prop obj k = Returned (the (map_of own' k)) \<and> map_of own' k \<noteq> None"
    by (metis (no_types, lifting))
  from a assms have "synthesized_new typeName F [obj]
            = Returned (JObj Ordinary (Some typeName) own' (inherited (class_prototype typeName)))"
    by (simp add: synthesized_new_def)
  with b show ?thesis by blast
qed

subsection \<open>The inert parameter\<close>

text \<open>
  Claim C9. For every object, every format and both values of \<^verbatim>\<open>allowDuckTyping\<close>,
  \<^verbatim>\<open>verify(o, f, true)\<close> and \<^verbatim>\<open>verify(o, f, false)\<close> are the same: the same boolean, and
  also the same warnings and the same throw if there is one.
\<close>

theorem allowDuckTyping_inert:
  "verify rt this_format object useFormat True
   = verify rt this_format object useFormat False"
  by (rule duck_typing_inert(1))

subsection \<open>Only the keys of the format are read\<close>

text \<open>
  Claim C10. Two targets that agree, at every key of the format, on whether they have the
  key and on the value they hold there get the same result from \<^verbatim>\<open>verify\<close>; what a
  target has outside the keys of the format does not matter.
\<close>

theorem verify_reads_format_keys_only:
  assumes "\<forall>key \<in> set (map fst (own_props (chosen_format this_format useFormat))).
             Reflect_has a key = Reflect_has b key \<and> get_prop a key = get_prop b key"
  shows "verify rt this_format a useFormat allowDuckTyping
       = verify rt this_format b useFormat allowDuckTyping"
proof (cases "Object_keys (chosen_format this_format useFormat)")
  case (Threw e)
  then show ?thesis by (simp add: verify.simps)
next
  case (Returned keys)
  then have "keys = map fst (own_props (chosen_format this_format useFormat))"
    by (auto simp: Object_keys_def split: jsval.splits)
  with assms Returned show ?thesis by (intro verify_agree) auto
qed

theorem verify_reads_format_keys_only_witness:
  "verify example_runtime (js_object [(''name'', String_class), (''age'', Number_class)])
     (js_object [(''name'', JStr ''John''), (''age'', JNum 30)]) JNull True
   = verify example_runtime (js_object [(''name'', String_class), (''age'', Number_class)])
     (js_object [(''name'', JStr ''John''), (''age'', JNum 30), (''extra'', JBool True)]) JNull True"
proof -
  have "\<forall>key \<in> set (map fst (own_props (chosen_format
            (js_object [(''name'', String_class), (''age'', Number_class)]) JNull))).
          Reflect_has (js_object [(''name'', JStr ''John''), (''age'', JNum 30)]) key
          = Reflect_has (js_object [(''name'', JStr ''John''), (''age'', JNum 30), (''extra'', JBool True)]) key
        \<and> get_prop (js_object [(''name'', JStr ''John''), (''age'', JNum 30)]) key
          = get_prop (js_object [(''name'', JStr ''John''), (''age'', JNum 30), (''extra'', JBool True)]) key"
    by code_simp
  then show ?thesis by (rule verify_reads_format_keys_only)
qed

subsection \<open>The array specifiers\<close>

text \<open>
  Claim C1 says that a field declared \<^verbatim>\<open>new Type.ArrayOf(T)\<close> verifies exactly the
  arrays whose elements verify against \<open>T\<close>, the empty array among them. The code has no
  case for the marker: \<^verbatim>\<open>verify\<close> takes it for the nested format \<^verbatim>\<open>{type: T}\<close> and asks
  the array for a key \<^verbatim>\<open>type\<close>. With the format \<^verbatim>\<open>{names: new Type.ArrayOf(String)}\<close>
  both the empty array and the array of the repository's own test
  (\<^verbatim>\<open>['Alice', 'Bob', 'Charlie']\<close>, which the test expects to verify) are rejected.
\<close>

theorem ArrayOf_rejects_arrays:
  "(case ArrayOf String_class of
      Threw e \<Rightarrow> Threw e
    | Returned marker \<Rightarrow>
        Returned
          (verify example_runtime (js_object [(''names'', marker)])
             (js_object [(''names'', js_array [])]) JNull True,
           verify example_runtime (js_object [(''names'', marker)])
             (js_object [(''names'', js_array [JStr ''Alice'', JStr ''Bob'', JStr ''Charlie''])])
             JNull True))
   = Returned ((Returned False, [MissingRequired ''type'']),
               (Returned False, [MissingRequired ''type'']))"
  by code_simp

text \<open>
  Claim C2 says that a field declared by a literal sequence of length \<open>n\<close> verifies only
  arrays of length \<open>n\<close>, so that \<^verbatim>\<open>{names: [String]}\<close> rejects
  \<^verbatim>\<open>{names: ['Alice', 'Bob']}\<close>, as the repository's test expects. The code compares no
  lengths: it checks the keys of the specifier only, here the key \<^verbatim>\<open>0\<close>, and accepts.
\<close>

theorem fixed_array_accepts_longer_array:
  "verify example_runtime (js_object [(''names'', js_array [String_class])])
     (js_object [(''names'', js_array [JStr ''Alice'', JStr ''Bob''])]) JNull True
   = (Returned True, [])"
  by code_simp

subsection \<open>Optional and required fields\<close>



text \<open>
  Claim C6 says that with a format without \<^verbatim>\<open>Optional\<close> fields, a target that lacks a
  key gets \<open>false\<close> and the diagnostic of the missing key. \<^verbatim>\<open>every\<close> stops at the
  first key that fails: with the format \<^verbatim>\<open>{age: Number, name: String}\<close> the target
  \<^verbatim>\<open>{age: '30'}\<close> lacks \<^verbatim>\<open>name\<close>, and the only warning is the type mismatch of
  \<^verbatim>\<open>age\<close>.
\<close>

theorem missing_key_not_reported:
  "verify example_runtime (js_object [(''age'', Number_class), (''name'', String_class)])
     (js_object [(''age'', JStr ''30'')]) JNull True
   = (Returned False, [TypeMismatch ''age'' ''Number'' ''String''])
   \<and> Reflect_has (js_object [(''age'', JStr ''30'')]) ''name'' = Returned False"
  by code_simp

text \<open>
  Claim C6 as amended. With a format whose every field is a required one and a target
  that lacks one of its keys, \<^verbatim>\<open>verify\<close> never returns \<open>true\<close>; when it returns, it
  returns \<open>false\<close> and has printed at least one warning; and the diagnostic of the
  missing key is printed when verification reaches that key, that is when every key
  before it passes.
\<close>

theorem missing_required_key:
  assumes "no_optional_fields rt (chosen_format this_format useFormat)"
    and "Object_keys (chosen_format this_format useFormat) = Returned keys"
    and "key \<in> set keys"
    and "Reflect_has object key = Returned False"
  shows "fst (verify rt this_format object useFormat allowDuckTyping) \<noteq> Returned True
       \<and> ((\<exists>b. fst (verify rt this_format object useFormat allowDuckTyping) = Returned b) \<longrightarrow>
            fst (verify rt this_format object useFormat allowDuckTyping) = Returned False
            \<and> snd (verify rt this_format object useFormat allowDuckTyping) \<noteq> [])
       \<and> (\<forall>pre post. keys = pre @ key # post
            \<and> (\<forall>k \<in> set pre. fst (verify_key rt this_format object
                    (chosen_format this_format useFormat) allowDuckTyping k) = Returned True)
            \<longrightarrow> fst (verify rt this_format object useFormat allowDuckTyping) = Returned False
              \<and> MissingRequired key \<in> set (snd (verify rt this_format object useFormat allowDuckTyping)))"
proof -
  let ?f = "\<lambda>k. verify_key rt this_format object (chosen_format this_format useFormat) allowDuckTyping k"
  let ?v = "verify rt this_format object useFormat allowDuckTyping"
  have v: "?v = every ?f keys" using assms(2) by (simp add: verify.simps)
  from assms(1,2,3) have "required_field rt (chosen_format this_format useFormat) key"
    by (simp add: no_optional_fields_def list_all_iff)
  from required_key_missing [OF this assms(4)]
  have miss: "?f key = (Returned False, [MissingRequired key])" .
  have not_true: "fst ?v \<noteq> Returned True"
  proof
    assume "fst ?v = Returned True"
    with v have "\<forall>k \<in> set keys. fst (?f k) = Returned True" by (simp add: every_True_iff)
    with assms(3) miss show False by auto
  qed
  have returns: "fst ?v = Returned False \<and> snd ?v \<noteq> []" if "\<exists>b. fst ?v = Returned b"
  proof -
    from that not_true have f: "fst ?v = Returned False" by auto
    then have "?v = (Returned False, snd ?v)" by (cases ?v) simp
    from false_warns(1) [OF this] f show ?thesis by simp
  qed
  have reached: "fst ?v = Returned False \<and> MissingRequired key \<in> set (snd ?v)"
    if "keys = pre @ key # post" and "\<forall>k \<in> set pre. fst (?f k) = Returned True" for pre post
  proof -
    from every_first_failure [of pre ?f key "[MissingRequired key]" post, OF that(2) miss]
    obtain ws where "every ?f (pre @ key # post) = (Returned False, ws @ [MissingRequired key])"
      by blast
    with v that(1) show ?thesis by simp
  qed
  from not_true returns reached show ?thesis by blast
qed

theorem missing_required_key_witness:
  "verify example_runtime (js_object [(''age'', Number_class), (''name'', String_class)])
     (js_object [(''age'', JNum 30)]) JNull True
   = (Returned False, [MissingRequired ''name''])
   \<and> MissingRequired ''name'' \<in> set (snd (verify example_runtime
         (js_object [(''age'', Number_class), (''name'', String_class)])
         (js_object [(''age'', JNum 30)]) JNull True))"
proof -
  let ?F = "js_object [(''age'', Number_class), (''name'', String_class)]"
  let ?o = "js_object [(''age'', JNum 30)]"
  have 1: "no_optional_fields example_runtime (chosen_format ?F JNull)" by code_simp
  have 2: "Object_keys (chosen_format ?F JNull) = Returned [''age'', ''name'']" by code_simp
  have 3: "''name'' \<in> set [''age'', ''name'']" by simp
  have 4: "Reflect_has ?o ''name'' = Returned False" by code_simp
  have 5: "[''age'', ''name''] = [''age''] @ ''name'' # []" by simp
  have 6: "\<forall>k \<in> set [''age'']. fst (verify_key example_runtime ?F ?o (chosen_format ?F JNull) True k) = Returned True"
    by code_simp
  have 7: "verify example_runtime ?F ?o JNull True = (Returned False, [MissingRequired ''name''])"
    by code_simp
  from missing_required_key [OF 1 2 3 4, of True] 5 6 7 show ?thesis by blast
qed

subsection \<open>When \<^verbatim>\<open>verify\<close> throws\<close>




section \<open>Properties of the synthesized constructor\<close>

text \<open>
  Claim C7 says that the synthesized constructor never throws, whatever the arguments.
  \<^verbatim>\<open>typeof null\<close> is \<^verbatim>\<open>'object'\<close>, so a first argument \<open>null\<close> is taken for the object of
  field values and reading the first key from it throws a TypeError.
\<close>

theorem synthesized_new_null_throws:
  "synthesized_new ''Person'' (js_object [(''name'', String_class), (''age'', Number_class)]) [JNull]
   = Threw TypeError"
  by code_simp

text \<open>
  Claim C4 says that an object literal that verifies against a format still verifies
  after a round trip through the synthesized constructor. The constructor assigns every
  key of the format, with \<open>undefined\<close> for a key the literal lacks; an absent
  \<^verbatim>\<open>Optional\<close> field passes for the literal, but the instance has the key, and
  \<open>undefined\<close> is no \<^verbatim>\<open>String\<close>.
\<close>

theorem round_trip_fails_on_absent_optional:
  "verify example_runtime (js_object [(''name'', String_class), (''nick'', Optional String_class)])
     (js_object [(''name'', JStr ''Alice'')])
     (js_object [(''name'', String_class), (''nick'', Optional String_class)]) True
   = (Returned True, [])
   \<and> (case synthesized_new ''Person''
              (js_object [(''name'', String_class), (''nick'', Optional String_class)])
              [js_object [(''name'', JStr ''Alice'')]] of
        Threw e \<Rightarrow> Threw e
      | Returned inst \<Rightarrow>
          Returned (verify example_runtime
             (js_object [(''name'', String_class), (''nick'', Optional String_class)]) inst
             (js_object [(''name'', String_class), (''nick'', Optional String_class)]) True))
     = Returned (Returned False, [TypeMismatch ''nick'' ''String'' ''Undefined''])"
  by code_simp

text \<open>
  Claim C4 as amended. For every format that has no key \<^verbatim>\<open>__proto__\<close> and every object
  literal (an object that is neither an array nor a function) that has every key of the
  format, the optional ones too: if the literal verifies against the format, the
  synthesized constructor called with the literal as its single argument returns an
  instance, and the instance verifies against the same format. (The assignment of a key
  \<^verbatim>\<open>__proto__\<close> reaches the inherited setter: it gives the instance no such property and
  may change its prototype, and with it the type name of the instance.)
\<close>

theorem round_trip:
  assumes "typeof obj = ''object''" and "obj \<noteq> JNull" and "\<not> isArray obj"
    and "truthy F" and "Object_keys F = Returned keys"
    and "''__proto__'' \<notin> set keys"
    and "\<forall>key \<in> set keys. Reflect_has obj key = Returned True"
    and "fst (verify rt this_format obj F allowDuckTyping) = Returned True"
  shows "\<exists>inst. synthesized_new typeName F [obj] = Returned inst
           \<and> fst (verify rt this_format inst F allowDuckTyping) = Returned True"
proof -
  from assms(4) have c: "chosen_format this_format F = F" by (simp add: chosen_format_def)
  from synthesized_new_object [OF assms(1,2,3,5,6), of typeName] obtain own' where
    new: "synthesized_new typeName F [obj]
            = Returned (JObj Ordinary (Some typeName) own' (inherited (class_prototype typeName)))"
    and vals: "\<forall>k \<in> set keys. get_prop obj k = Returned (the (map_of own' k)) \<and> map_of own' k \<noteq> None"
    by blast
  let ?inst = "JObj Ordinary (Some typeName) own' (inherited (class_prototype typeName))"
  have has: "Reflect_has ?inst key = Reflect_has obj key" if "key \<in> set keys" for key
    using vals that assms(7) by (auto simp: Reflect_has_def)
  have get: "get_prop ?inst key = get_prop obj key" if "key \<in> set keys" for key
    using vals that by (auto simp: get_prop_def own_props_def other_props_def)
  have "verify rt this_format ?inst F allowDuckTyping = verify rt this_format obj F allowDuckTyping"
    using assms(5) has get by (intro verify_agree [where keys = keys]) (simp_all add: c)
  with new assms(8) show ?thesis by simp
qed

theorem round_trip_witness:
  "(case synthesized_new ''Person'' (js_object [(''name'', String_class), (''age'', Number_class)])
           [js_object [(''name'', JStr ''John''), (''age'', JNum 30)]] of
      Threw e \<Rightarrow> Threw e
    | Returned inst \<Rightarrow>
        fst (verify example_runtime (js_object [(''name'', String_class), (''age'', Number_class)])
               inst (js_object [(''name'', String_class), (''age'', Number_class)]) True))
   = Returned True"
proof -
  let ?F = "js_object [(''name'', String_class), (''age'', Number_class)]"
  let ?o = "js_object [(''name'', JStr ''John''), (''age'', JNum 30)]"
  have 1: "typeof ?o = ''object''" "?o \<noteq> JNull" "\<not> isArray ?o" by code_simp+
  have 2: "truthy ?F" by code_simp
  have 3: "Object_keys ?F = Returned [''name'', ''age'']" by code_simp
  have 4: "''__proto__'' \<notin> set [''name'', ''age'']" by simp
  have 5: "\<forall>key \<in> set [''name'', ''age'']. Reflect_has ?o key = Returned True" by code_simp
  have 6: "fst (verify example_runtime ?F ?o ?F True) = Returned True" by code_simp
  from round_trip [OF 1 2 3 4 5 6, of "''Person''"] show ?thesis by auto
qed

text \<open>
  The hypothesis on the key \<^verbatim>\<open>__proto__\<close> is needed. With the format
  \<^verbatim>\<open>{['__proto__']: Number}\<close> the literal \<^verbatim>\<open>{['__proto__']: 5}\<close> verifies. The
  constructor's assignment reaches the inherited setter, which drops the number: the
  instance has no own key, the \<^verbatim>\<open>__proto__\<close> read from it is the prototype of its
  class, and that is no \<^verbatim>\<open>Number\<close>.
\<close>

lemma proto_key_reaches_setter:
  "verify example_runtime (js_object [(''__proto__'', Number_class)])
     (js_object [(''__proto__'', JNum 5)])
     (js_object [(''__proto__'', Number_class)]) True
   = (Returned True, [])
   \<and> (case synthesized_new ''T'' (js_object [(''__proto__'', Number_class)])
              [js_object [(''__proto__'', JNum 5)]] of
        Threw e \<Rightarrow> Threw e
      | Returned inst \<Rightarrow>
          Returned (Object_keys inst,
             verify example_runtime (js_object [(''__proto__'', Number_class)]) inst
               (js_object [(''__proto__'', Number_class)]) True))
     = Returned (Returned [], (Returned False, [TypeMismatch ''__proto__'' ''Number'' ''T'']))"
  by code_simp

section \<open>Properties of descriptors\<close>

text \<open>
  Claim C8 says that a descriptor holds a shallow copy of the format it was given, so
  that a later change of the caller's object is not seen through the descriptor. The
  constructor stores the caller's object itself (\<^verbatim>\<open>this.format = format\<close>): after
  \<^verbatim>\<open>format.age = Number\<close> the format read through the descriptor has the key
  \<^verbatim>\<open>age\<close>, which it did not have before.
\<close>

theorem descriptor_format_follows_caller:
  "objects (fst (new_Type caller_store ''Person'' 0)) (descriptor_format (snd (new_Type caller_store ''Person'' 0)))
   = [(''name'', String_class)]
   \<and> objects (assign_prop (fst (new_Type caller_store ''Person'' 0)) 0 ''age'' Number_class)
       (descriptor_format (snd (new_Type caller_store ''Person'' 0)))
   = [(''name'', String_class), (''age'', Number_class)]"
  by (simp add: new_Type_def classFromFormat_def allocate_def assign_prop_def caller_store_def)

text \<open>
  Claim C8 as amended. After \<^verbatim>\<open>new Type(typeName, format)\<close> the \<^verbatim>\<open>format\<close> field of the
  descriptor is the caller's format object itself, so adding, retyping or removing a key
  of that object is seen through the descriptor. The shallow copy is the \<^verbatim>\<open>FORMAT\<close>
  metadata on the prototype of the synthesized class: it holds the properties the
  format had at construction, and adding, retyping or removing a key of the caller's
  object afterwards does not change it.
\<close>

theorem descriptor_shares_format:
  assumes "format < next_ref h"
    and "new_Type h typeName format = (h', d)"
  shows "descriptor_format d = format
       \<and> objects (assign_prop h' format key v) (descriptor_format d) = put_prop key v (objects h format)
       \<and> objects (delete_prop h' format key) (descriptor_format d)
           = filter (\<lambda>p. fst p \<noteq> key) (objects h format)
       \<and> objects h' (class_FORMAT (descriptor_type d)) = objects h format
       \<and> objects (assign_prop h' format key v) (class_FORMAT (descriptor_type d)) = objects h format
       \<and> objects (delete_prop h' format key) (class_FORMAT (descriptor_type d)) = objects h format"
  using assms
  by (auto simp: new_Type_def classFromFormat_def allocate_def assign_prop_def delete_prop_def)

theorem descriptor_shares_format_witness:
  "objects (assign_prop (fst (new_Type caller_store ''Person'' 0)) 0 ''age'' Number_class)
     (class_FORMAT (descriptor_type (snd (new_Type caller_store ''Person'' 0))))
   = [(''name'', String_class)]
   \<and> descriptor_format (snd (new_Type caller_store ''Person'' 0)) = 0"
proof -
  have live: "0 < next_ref caller_store" by (simp add: caller_store_def)
  have eq: "new_Type caller_store ''Person'' 0
      = (fst (new_Type caller_store ''Person'' 0), snd (new_Type caller_store ''Person'' 0))"
    by simp
  have "objects caller_store 0 = [(''name'', String_class)]" by (simp add: caller_store_def)
  with descriptor_shares_format [OF live eq, of "''age''" Number_class] show ?thesis by simp
qed

end
